theory Spec2Isabelle
  imports Main
begin

section \<open>The chat front end: session state, transport and the two operations\<close>

text \<open>
  The program is \<^verbatim>\<open>src/frontend/streamlit_app.py\<close>. Its control flow lives in two methods of
  \<^verbatim>\<open>MedicalChatbotUI\<close>: \<^verbatim>\<open>create_session\<close> and \<^verbatim>\<open>send_message\<close>. Both read and write
  Streamlit's \<^verbatim>\<open>st.session_state\<close>, report failures with \<^verbatim>\<open>st.error\<close> and talk to the
  backend with \<^verbatim>\<open>requests.post\<close>. The embedding passes all three around explicitly in one
  record: the three fields of the session state, the list of \<^verbatim>\<open>st.error\<close> texts shown so far,
  and the list of requests posted so far.
\<close>

subsection \<open>Data\<close>

text \<open>A chat entry is the dictionary \<^verbatim>\<open>{"role": ..., "content": ...}\<close> of lines 79, 87, 91, 95.\<close>

record message =
  role :: string
  content :: string

text \<open>What \<^verbatim>\<open>requests.post\<close> was called with: the endpoint, and for \<^verbatim>\<open>/chat\<close> the payload of line 82.\<close>

datatype request =
  PostSession
  | PostChat string "string option"

record app =
  session_id :: "string option"
  messages :: "message list"
  suggestions :: "string list"
  errors :: "string list"
  posts :: "request list"

text \<open>
  The exceptions the handlers tell apart: \<^verbatim>\<open>requests.exceptions.ConnectionError\<close>, and everything
  else under \<^verbatim>\<open>Exception\<close>. \<^verbatim>\<open>KeyError\<close> is the one the bodies themselves raise, when a
  field is missing from the decoded object. The last constructor is what Python raises outside
  \<^verbatim>\<open>Exception\<close> (\<^verbatim>\<open>KeyboardInterrupt\<close>, \<^verbatim>\<open>SystemExit\<close>): neither \<^verbatim>\<open>except\<close> clause of the
  program catches it. Each carries what \<^verbatim>\<open>str(e)\<close> needs.
\<close>

datatype exn =
  ConnectionError string
  | KeyError string
  | OtherException string
  | NotAnException string

text \<open>
  A response has a status code and a body; \<^verbatim>\<open>response.json()\<close> either decodes the body or
  raises (never a connection error: the body has been received by then).
\<close>

datatype 'b body =
  Decoded 'b
  | Undecodable string

record 'b response =
  status_code :: int
  json :: "'b body"

text \<open>
  The decoded objects, with the field types of the HTTP contract (the backend itself is not
  part of the front end's source): \<^verbatim>\<open>/session\<close> answers \<^verbatim>\<open>{"session_id": string}\<close>,
  \<^verbatim>\<open>/chat\<close> answers \<^verbatim>\<open>{"response": string, "suggestions": [string, ...]}\<close>. A field is
  \<open>None\<close> when the key is missing, which is where the subscript raises \<^verbatim>\<open>KeyError\<close>.
\<close>

type_synonym session_json = "string option"

record chat_json =
  response_field :: "string option"
  suggestions_field :: "string list option"

text \<open>
  The backend as seen through \<^verbatim>\<open>requests.post\<close>: each call returns a response or raises. The
  first argument is the list of requests posted before this one, so that the same backend can
  answer differently from one call to the next; every sequence of outcomes is some backend.
\<close>

record backend =
  post_session :: "request list \<Rightarrow> exn + session_json response"
  post_chat :: "request list \<Rightarrow> string \<Rightarrow> string option \<Rightarrow> exn + chat_json response"

subsection \<open>Python's \<^verbatim>\<open>str\<close> and truth value\<close>

function digits :: "nat \<Rightarrow> string" where
  "digits n = (if n < 10 then [char_of (48 + n)] else digits (n div 10) @ [char_of (48 + n mod 10)])"
  by pat_completeness auto
termination
  by (relation "measure id") auto

declare digits.simps [simp del]

definition str_int :: "int \<Rightarrow> string" where
  "str_int i = (if i < 0 then CHR ''-'' # digits (nat (- i)) else digits (nat i))"

fun str_exn :: "exn \<Rightarrow> string" where
  "str_exn (ConnectionError m) = m"
| "str_exn (KeyError k) = CHR 0x27 # k @ [CHR 0x27]"
| "str_exn (OtherException m) = m"
| "str_exn (NotAnException m) = m"

text \<open>
  \<^verbatim>\<open>not st.session_state.session_id\<close> (lines 71 and 75) holds for \<^verbatim>\<open>None\<close> and for the empty
  string.
\<close>

definition no_session :: "app \<Rightarrow> bool" where
  "no_session s = (case session_id s of None \<Rightarrow> True | Some sid \<Rightarrow> sid = [])"

subsection \<open>\<^verbatim>\<open>initialize_session_state\<close> and \<^verbatim>\<open>st.error\<close>\<close>

definition initial :: app where
  "initial = \<lparr>session_id = None, messages = [], suggestions = [], errors = [], posts = []\<rparr>"

definition st_error :: "string \<Rightarrow> app \<Rightarrow> app" where
  "st_error text s = s\<lparr>errors := errors s @ [text]\<rparr>"

definition append_message :: "string \<Rightarrow> string \<Rightarrow> app \<Rightarrow> app" where
  "append_message r c s = s\<lparr>messages := messages s @ [\<lparr>role = r, content = c\<rparr>]\<rparr>"

subsection \<open>\<^verbatim>\<open>create_session\<close> (lines 53 to 67)\<close>

text \<open>
  The body of the \<^verbatim>\<open>try\<close>: the state where it stops, and the exception it stops with, if any.
\<close>

definition create_session_try :: "backend \<Rightarrow> app \<Rightarrow> app \<times> exn option" where
  "create_session_try b s =
     (let s1 = s\<lparr>posts := posts s @ [PostSession]\<rparr> in
      case post_session b (posts s) of
        Inl e \<Rightarrow> (s1, Some e)
      | Inr resp \<Rightarrow>
          if status_code resp = 200 then
            (case json resp of
               Undecodable m \<Rightarrow> (s1, Some (OtherException m))
             | Decoded None \<Rightarrow> (s1, Some (KeyError ''session_id''))
             | Decoded (Some sid) \<Rightarrow>
                 (s1\<lparr>session_id := Some sid, messages := [], suggestions := []\<rparr>, None))
          else
            (st_error ''Failed to create a new session. Please ensure the backend is running.'' s1,
             None))"

text \<open>
  The whole method: the state it leaves, and the exception that leaves it, if any. The clause of
  line 64 catches a connection error, the clause of line 66 everything else under
  \<^verbatim>\<open>Exception\<close>; what neither catches goes on to the caller, with the state as the
  \<^verbatim>\<open>try\<close> left it.
\<close>

definition create_session_outcome :: "backend \<Rightarrow> app \<Rightarrow> app \<times> exn option" where
  "create_session_outcome b s =
     (case create_session_try b s of
        (s', None) \<Rightarrow> (s', None)
      | (s', Some (ConnectionError m)) \<Rightarrow>
          (st_error ''Connection Error: Could not connect to the API server.'' s', None)
      | (s', Some (NotAnException m)) \<Rightarrow> (s', Some (NotAnException m))
      | (s', Some e) \<Rightarrow>
          (st_error (''An unexpected error occurred: '' @ str_exn e) s', None))"

text \<open>The state that a call leaves in \<^verbatim>\<open>st.session_state\<close>, however the call ends.\<close>

definition create_session :: "backend \<Rightarrow> app \<Rightarrow> app" where
  "create_session b s = fst (create_session_outcome b s)"

subsection \<open>\<^verbatim>\<open>send_message\<close> (lines 69 to 97)\<close>

text \<open>The body of the \<^verbatim>\<open>try\<close> of lines 81 to 91.\<close>

definition send_message_try :: "backend \<Rightarrow> string \<Rightarrow> app \<Rightarrow> app \<times> exn option" where
  "send_message_try b text s =
     (let s1 = s\<lparr>posts := posts s @ [PostChat text (session_id s)]\<rparr> in
      case post_chat b (posts s) text (session_id s) of
        Inl e \<Rightarrow> (s1, Some e)
      | Inr resp \<Rightarrow>
          if status_code resp = 200 then
            (case json resp of
               Undecodable m \<Rightarrow> (s1, Some (OtherException m))
             | Decoded result \<Rightarrow>
                 (case response_field result of
                    None \<Rightarrow> (s1, Some (KeyError ''response''))
                  | Some r \<Rightarrow>
                      (let s2 = append_message ''assistant'' r s1 in
                       case suggestions_field result of
                         None \<Rightarrow> (s2, Some (KeyError ''suggestions''))
                       | Some sg \<Rightarrow> (s2\<lparr>suggestions := sg\<rparr>, None))))
          else
            (append_message ''assistant'' ''Sorry, I encountered an error. Please try again.''
               (st_error (''Error: Received status code '' @ str_int (status_code resp)
                            @ '' from the server.'') s1),
             None))"

text \<open>
  Lines 78 to 97: the echo of the user's text, the \<^verbatim>\<open>try\<close> and its handlers, with the
  exception that leaves them, if any.
\<close>

definition send_message_exchange_outcome :: "backend \<Rightarrow> string \<Rightarrow> app \<Rightarrow> app \<times> exn option" where
  "send_message_exchange_outcome b text s =
     (case send_message_try b text (append_message ''user'' text s) of
        (s', None) \<Rightarrow> (s', None)
      | (s', Some (ConnectionError m)) \<Rightarrow>
          (append_message ''assistant''
             (''I can'' @ [CHR 0x27] @ ''t connect to my brain right now. Please check the server.'')
             (st_error ''Connection Error: Could not send message. Please check the backend server.'' s'),
           None)
      | (s', Some (NotAnException m)) \<Rightarrow> (s', Some (NotAnException m))
      | (s', Some e) \<Rightarrow>
          (st_error (''An unexpected error occurred while sending the message: '' @ str_exn e) s',
           None))"

definition send_message_exchange :: "backend \<Rightarrow> string \<Rightarrow> app \<Rightarrow> app" where
  "send_message_exchange b text s = fst (send_message_exchange_outcome b text s)"

text \<open>
  Lines 71 to 76, then the rest. An exception that leaves \<^verbatim>\<open>create_session\<close> at line 72 leaves
  \<^verbatim>\<open>send_message\<close> too. \<^verbatim>\<open>time.sleep(0.5)\<close> changes nothing the model holds and is left out.
\<close>

definition send_message_outcome :: "backend \<Rightarrow> string \<Rightarrow> app \<Rightarrow> app \<times> exn option" where
  "send_message_outcome b text s =
     (if no_session s then
        (case create_session_outcome b s of
           (s', Some e) \<Rightarrow> (s', Some e)
         | (s', None) \<Rightarrow>
             if no_session s' then (s', None) else send_message_exchange_outcome b text s')
      else send_message_exchange_outcome b text s)"

definition send_message :: "backend \<Rightarrow> string \<Rightarrow> app \<Rightarrow> app" where
  "send_message b text s = fst (send_message_outcome b text s)"

subsection \<open>The calls the page makes\<close>

text \<open>
  The sidebar's button (lines 118 to 120) starts a new conversation by calling
  \<^verbatim>\<open>create_session\<close>; the suggestion buttons, the quick symptom buttons and the form call
  \<^verbatim>\<open>send_message\<close>. \<^verbatim>\<open>st.rerun()\<close> only redraws.
\<close>

datatype action =
  CreateSession
  | SendMessage string
  | StartNewConversation

fun step :: "backend \<Rightarrow> app \<Rightarrow> action \<Rightarrow> app" where
  "step b s CreateSession = create_session b s"
| "step b s (SendMessage text) = send_message b text s"
| "step b s StartNewConversation = create_session b s"

definition run :: "backend \<Rightarrow> action list \<Rightarrow> app" where
  "run b acts = foldl (step b) initial acts"

subsection \<open>The invariant of the session state\<close>

definition session_invariant :: "app \<Rightarrow> bool" where
  "session_invariant s = (no_session s \<longrightarrow> messages s = [] \<and> suggestions s = [])"

subsection \<open>Repeated sending\<close>

fun send_all :: "backend \<Rightarrow> string list \<Rightarrow> app \<Rightarrow> app" where
  "send_all b [] s = s"
| "send_all b (text # texts) s = send_all b texts (send_message b text s)"

text \<open>
  The exchange that \<^verbatim>\<open>send_message\<close> would make from \<open>s\<close> succeeds: the post returns status
  200 and a body that decodes to an object with both fields, so that lines 86 to 88 run to the end.
\<close>

definition exchange_succeeds :: "backend \<Rightarrow> string \<Rightarrow> app \<Rightarrow> bool" where
  "exchange_succeeds b text s =
     (case post_chat b (posts s) text (session_id s) of
        Inl e \<Rightarrow> False
      | Inr resp \<Rightarrow>
          status_code resp = 200 \<and>
          (case json resp of
             Undecodable m \<Rightarrow> False
           | Decoded result \<Rightarrow> response_field result \<noteq> None \<and> suggestions_field result \<noteq> None))"

fun all_succeed :: "backend \<Rightarrow> string list \<Rightarrow> app \<Rightarrow> bool" where
  "all_succeed b [] s = True"
| "all_succeed b (text # texts) s =
     (exchange_succeeds b text s \<and> all_succeed b texts (send_message b text s))"

text \<open>The log that \<open>n\<close> exchanges leave: user text, assistant reply, oldest first.\<close>

fun dialogue :: "string list \<Rightarrow> string list \<Rightarrow> message list" where
  "dialogue (text # texts) (reply # replies) =
     \<lparr>role = ''user'', content = text\<rparr> # \<lparr>role = ''assistant'', content = reply\<rparr>
       # dialogue texts replies"
| "dialogue texts replies = []"

subsection \<open>Backends and states of the scenarios\<close>

text \<open>
  The backends below are the situations of the test scenarios: a server that answers, one that
  cannot be reached, one that refuses sessions, two that hand out sessions but fail the chat, and
  one whose every call is interrupted. The healthy one numbers its sessions by the requests it
  has seen.
\<close>

definition chat_ok :: "string \<Rightarrow> string list \<Rightarrow> exn + chat_json response" where
  "chat_ok r sg =
     Inr \<lparr>status_code = 200,
          json = Decoded \<lparr>response_field = Some r, suggestions_field = Some sg\<rparr>\<rparr>"

definition session_ok :: "string \<Rightarrow> exn + session_json response" where
  "session_ok sid = Inr \<lparr>status_code = 200, json = Decoded (Some sid)\<rparr>"

definition healthy_backend :: backend where
  "healthy_backend =
     \<lparr>post_session = (\<lambda>h. session_ok (CHR ''s'' # digits (length h))),
      post_chat = (\<lambda>h text sid. chat_ok ''Tell me more'' [''Since when?'', ''Any fever?''])\<rparr>"

definition unreachable_backend :: backend where
  "unreachable_backend =
     \<lparr>post_session = (\<lambda>h. Inl (ConnectionError ''Connection refused'')),
      post_chat = (\<lambda>h text sid. Inl (ConnectionError ''Connection refused''))\<rparr>"

definition refusing_backend :: backend where
  "refusing_backend =
     \<lparr>post_session = (\<lambda>h. Inr \<lparr>status_code = 503, json = Undecodable ''Expecting value''\<rparr>),
      post_chat = (\<lambda>h text sid. Inr \<lparr>status_code = 503, json = Undecodable ''Expecting value''\<rparr>)\<rparr>"

definition failing_chat_backend :: backend where
  "failing_chat_backend =
     \<lparr>post_session = (\<lambda>h. session_ok ''s0''),
      post_chat = (\<lambda>h text sid. Inr \<lparr>status_code = 500, json = Undecodable ''Expecting value''\<rparr>)\<rparr>"

definition dropping_chat_backend :: backend where
  "dropping_chat_backend =
     \<lparr>post_session = (\<lambda>h. session_ok ''s0''),
      post_chat = (\<lambda>h text sid. Inl (ConnectionError ''Connection reset''))\<rparr>"

definition interrupted_backend :: backend where
  "interrupted_backend =
     \<lparr>post_session = (\<lambda>h. Inl (NotAnException ''KeyboardInterrupt'')),
      post_chat = (\<lambda>h text sid. Inl (NotAnException ''KeyboardInterrupt''))\<rparr>"

text \<open>A conversation under way: one exchange made, one suggestion on offer.\<close>

definition talking :: app where
  "talking =
     \<lparr>session_id = Some ''s0'',
      messages = [\<lparr>role = ''user'', content = ''Bloating and gas''\<rparr>,
                  \<lparr>role = ''assistant'', content = ''Since when?''\<rparr>],
      suggestions = [''Any fever?''],
      errors = [],
      posts = [PostSession, PostChat ''Bloating and gas'' (Some ''s0'')]\<rparr>"

section \<open>Properties\<close>

subsection \<open>The state functions, written out\<close>

lemma create_session_eq:
  "create_session b s =
     (case create_session_try b s of
        (s', None) \<Rightarrow> s'
      | (s', Some (ConnectionError m)) \<Rightarrow>
          st_error ''Connection Error: Could not connect to the API server.'' s'
      | (s', Some (NotAnException m)) \<Rightarrow> s'
      | (s', Some e) \<Rightarrow>
          st_error (''An unexpected error occurred: '' @ str_exn e) s')"
  by (simp add: create_session_def create_session_outcome_def
      split: prod.splits option.splits exn.splits)

lemma send_message_exchange_eq:
  "send_message_exchange b text s =
     (case send_message_try b text (append_message ''user'' text s) of
        (s', None) \<Rightarrow> s'
      | (s', Some (ConnectionError m)) \<Rightarrow>
          append_message ''assistant''
            (''I can'' @ [CHR 0x27] @ ''t connect to my brain right now. Please check the server.'')
            (st_error ''Connection Error: Could not send message. Please check the backend server.'' s')
      | (s', Some (NotAnException m)) \<Rightarrow> s'
      | (s', Some e) \<Rightarrow>
          st_error (''An unexpected error occurred while sending the message: '' @ str_exn e) s')"
  by (simp add: send_message_exchange_def send_message_exchange_outcome_def
      split: prod.splits option.splits exn.splits)

lemma create_session_escapes:
  assumes "snd (create_session_outcome b s) = Some e"
  shows "create_session b s = s\<lparr>posts := posts s @ [PostSession]\<rparr>"
  using assms
  by (auto simp: create_session_def create_session_outcome_def create_session_try_def st_error_def
      Let_def split: sum.splits body.splits option.splits exn.splits if_splits prod.splits)

lemma send_message_eq:
  "send_message b text s =
     (if no_session s then
        (let s' = create_session b s in
         if no_session s' then s' else send_message_exchange b text s')
      else send_message_exchange b text s)"
proof (cases "create_session_outcome b s")
  case (Pair s' r)
  then have state: "create_session b s = s'"
    by (simp add: create_session_def)
  show ?thesis
  proof (cases r)
    case None
    with Pair state show ?thesis
      by (simp add: send_message_def send_message_outcome_def send_message_exchange_def)
  next
    case (Some e)
    with Pair have "snd (create_session_outcome b s) = Some e"
      by simp
    then have "session_id (create_session b s) = session_id s"
      by (simp add: create_session_escapes)
    with state have "no_session s' = no_session s"
      by (simp add: no_session_def)
    with Pair Some state show ?thesis
      by (simp add: send_message_def send_message_outcome_def send_message_exchange_def)
  qed
qed

subsection \<open>What each operation can do to the state\<close>

lemmas op_splits = sum.splits body.splits option.splits exn.splits if_splits prod.splits

lemma create_session_cases:
  "(\<exists>sid. create_session b s =
       s\<lparr>posts := posts s @ [PostSession], session_id := Some sid, messages := [],
         suggestions := []\<rparr>)
   \<or> (\<exists>e. create_session b s = s\<lparr>posts := posts s @ [PostSession], errors := errors s @ [e]\<rparr>)
   \<or> create_session b s = s\<lparr>posts := posts s @ [PostSession]\<rparr>"
  by (auto simp: create_session_eq create_session_try_def st_error_def Let_def split: op_splits)

lemma create_session_succeeds:
  assumes "post_session b (posts s) = Inr resp" and "status_code resp = 200"
    and "json resp = Decoded (Some sid)"
  shows "create_session b s =
           s\<lparr>posts := posts s @ [PostSession], session_id := Some sid, messages := [],
             suggestions := []\<rparr>"
  using assms by (simp add: create_session_eq create_session_try_def)

lemma create_session_unreachable:
  assumes "post_session b (posts s) = Inl (ConnectionError m)"
  shows "create_session b s =
           s\<lparr>posts := posts s @ [PostSession],
             errors := errors s @ [''Connection Error: Could not connect to the API server.'']\<rparr>"
  using assms by (simp add: create_session_eq create_session_try_def st_error_def)

lemma create_session_rejected:
  assumes "post_session b (posts s) = Inr resp" and "status_code resp \<noteq> 200"
  shows "create_session b s =
           s\<lparr>posts := posts s @ [PostSession],
             errors := errors s @
               [''Failed to create a new session. Please ensure the backend is running.'']\<rparr>"
  using assms by (simp add: create_session_eq create_session_try_def st_error_def)

lemma exchange_session_id: "session_id (send_message_exchange b text s) = session_id s"
  by (auto simp: send_message_exchange_eq send_message_try_def st_error_def append_message_def
      Let_def split: op_splits)

lemma exchange_posts:
  "posts (send_message_exchange b text s) = posts s @ [PostChat text (session_id s)]"
  by (auto simp: send_message_exchange_eq send_message_try_def st_error_def append_message_def
      Let_def split: op_splits)

lemma exchange_echo:
  "\<exists>rest. messages (send_message_exchange b text s) =
            messages s @ \<lparr>role = ''user'', content = text\<rparr> # rest"
  by (auto simp: send_message_exchange_eq send_message_try_def st_error_def append_message_def
      Let_def split: op_splits)

lemma exchange_succeeds_result:
  assumes "post_chat b (posts s) text (session_id s) = Inr resp" and "status_code resp = 200"
    and "json resp = Decoded result" and "response_field result = Some r"
    and "suggestions_field result = Some sg"
  shows "send_message_exchange b text s =
           s\<lparr>posts := posts s @ [PostChat text (session_id s)],
             messages := messages s @
               [\<lparr>role = ''user'', content = text\<rparr>, \<lparr>role = ''assistant'', content = r\<rparr>],
             suggestions := sg\<rparr>"
  using assms
  by (simp add: send_message_exchange_eq send_message_try_def append_message_def)

lemma exchange_rejected:
  assumes "post_chat b (posts s) text (session_id s) = Inr resp" and "status_code resp \<noteq> 200"
  shows "send_message_exchange b text s =
           s\<lparr>posts := posts s @ [PostChat text (session_id s)],
             errors := errors s @
               [''Error: Received status code '' @ str_int (status_code resp)
                  @ '' from the server.''],
             messages := messages s @
               [\<lparr>role = ''user'', content = text\<rparr>,
                \<lparr>role = ''assistant'',
                 content = ''Sorry, I encountered an error. Please try again.''\<rparr>]\<rparr>"
  using assms
  by (simp add: send_message_exchange_eq send_message_try_def append_message_def st_error_def)

lemma exchange_unreachable:
  assumes "post_chat b (posts s) text (session_id s) = Inl (ConnectionError m)"
  shows "send_message_exchange b text s =
           s\<lparr>posts := posts s @ [PostChat text (session_id s)],
             errors := errors s @
               [''Connection Error: Could not send message. Please check the backend server.''],
             messages := messages s @
               [\<lparr>role = ''user'', content = text\<rparr>,
                \<lparr>role = ''assistant'',
                 content = ''I can'' @ [CHR 0x27]
                   @ ''t connect to my brain right now. Please check the server.''\<rparr>]\<rparr>"
  using assms
  by (simp add: send_message_exchange_eq send_message_try_def append_message_def st_error_def)

lemma send_message_active: "\<not> no_session s \<Longrightarrow> send_message b text s = send_message_exchange b text s"
  by (simp add: send_message_eq)

lemma no_session_iff: "no_session s \<longleftrightarrow> session_id s = None \<or> session_id s = Some []"
  by (simp add: no_session_def split: option.splits)

lemma no_session_frame: "session_id s' = session_id s \<Longrightarrow> no_session s' = no_session s"
  by (simp add: no_session_def)

lemma create_session_fails:
  assumes "(\<exists>m. post_session b (posts s) = Inl (ConnectionError m))
         \<or> (\<exists>resp. post_session b (posts s) = Inr resp \<and> status_code resp \<noteq> 200)"
  shows "create_session b s =
       s\<lparr>posts := posts s @ [PostSession],
         errors := errors s @
           [case post_session b (posts s) of
              Inl e \<Rightarrow> ''Connection Error: Could not connect to the API server.''
            | Inr resp \<Rightarrow>
                ''Failed to create a new session. Please ensure the backend is running.'']\<rparr>"
  using assms
proof (elim disjE exE conjE)
  fix m assume h: "post_session b (posts s) = Inl (ConnectionError m)"
  show ?thesis
    by (simp add: create_session_unreachable [OF h] h)
next
  fix resp assume h: "post_session b (posts s) = Inr resp" and c: "status_code resp \<noteq> 200"
  show ?thesis
    by (simp add: create_session_rejected [OF h c] h)
qed

lemma send_message_without_session_fails:
  assumes "no_session s"
    and "(\<exists>m. post_session b (posts s) = Inl (ConnectionError m))
         \<or> (\<exists>resp. post_session b (posts s) = Inr resp \<and> status_code resp \<noteq> 200)"
  shows "send_message b text s = create_session b s"
proof -
  have "session_id (create_session b s) = session_id s"
    using create_session_fails [OF assms(2)] by simp
  with assms(1) have "no_session (create_session b s)"
    by (simp add: no_session_def)
  with assms(1) show ?thesis
    by (simp add: send_message_eq)
qed

lemma no_session_send_message: "\<not> no_session s \<Longrightarrow> \<not> no_session (send_message b text s)"
  by (simp add: send_message_active no_session_def exchange_session_id)

lemma exchange_succeeds_obtains:
  assumes "exchange_succeeds b text s"
  obtains resp result r sg where "post_chat b (posts s) text (session_id s) = Inr resp"
    and "status_code resp = 200" and "json resp = Decoded result"
    and "response_field result = Some r" and "suggestions_field result = Some sg"
  using assms
  by (auto simp: exchange_succeeds_def split: sum.splits body.splits)

lemma send_all_messages:
  assumes "\<not> no_session s" and "all_succeed b texts s"
  shows "\<exists>replies. length replies = length texts
           \<and> messages (send_all b texts s) = messages s @ dialogue texts replies"
  using assms
proof (induction texts arbitrary: s)
  case Nil
  then show ?case by simp
next
  case (Cons t ts)
  let ?s' = "send_message b t s"
  from Cons.prems have ok: "exchange_succeeds b t s" and rest: "all_succeed b ts ?s'"
    by simp_all
  from ok obtain resp result r sg where
    "post_chat b (posts s) t (session_id s) = Inr resp" "status_code resp = 200"
    "json resp = Decoded result" "response_field result = Some r"
    "suggestions_field result = Some sg"
    by (rule exchange_succeeds_obtains)
  then have "send_message_exchange b t s =
           s\<lparr>posts := posts s @ [PostChat t (session_id s)],
             messages := messages s @
               [\<lparr>role = ''user'', content = t\<rparr>, \<lparr>role = ''assistant'', content = r\<rparr>],
             suggestions := sg\<rparr>"
    by (rule exchange_succeeds_result)
  with Cons.prems(1) have one: "messages ?s' =
      messages s @ [\<lparr>role = ''user'', content = t\<rparr>, \<lparr>role = ''assistant'', content = r\<rparr>]"
    by (simp add: send_message_active)
  from Cons.prems(1) have "\<not> no_session ?s'"
    by (rule no_session_send_message)
  from Cons.IH [OF this rest] obtain replies where
    "length replies = length ts"
    "messages (send_all b ts ?s') = messages ?s' @ dialogue ts replies"
    by blast
  with one have "length (r # replies) = length (t # ts)
      \<and> messages (send_all b (t # ts) s) = messages s @ dialogue (t # ts) (r # replies)"
    by simp
  then show ?case by blast
qed

lemma length_dialogue:
  "length replies = length texts \<Longrightarrow> length (dialogue texts replies) = 2 * length texts"
  by (induction texts replies rule: dialogue.induct) simp_all

lemma roles_dialogue:
  "length replies = length texts \<Longrightarrow>
     map role (dialogue texts replies) = concat (replicate (length texts) [''user'', ''assistant''])"
  by (induction texts replies rule: dialogue.induct) simp_all

lemma create_session_fails_returns:
  assumes "(\<exists>m. post_session b (posts s) = Inl (ConnectionError m))
         \<or> (\<exists>resp. post_session b (posts s) = Inr resp \<and> status_code resp \<noteq> 200)"
  shows "snd (create_session_outcome b s) = None"
  using assms
  by (auto simp: create_session_outcome_def create_session_try_def Let_def)

lemma exchange_fails_returns:
  assumes "(\<exists>m. post_chat b (posts s) text (session_id s) = Inl (ConnectionError m))
            \<or> (\<exists>resp. post_chat b (posts s) text (session_id s) = Inr resp
                  \<and> status_code resp \<noteq> 200)"
  shows "snd (send_message_exchange_outcome b text s) = None"
  using assms
  by (auto simp: send_message_exchange_outcome_def send_message_try_def append_message_def Let_def)

lemma exchange_fails_exactly:
  assumes "(\<exists>m. post_chat b (posts s) text (session_id s) = Inl (ConnectionError m))
            \<or> (\<exists>resp. post_chat b (posts s) text (session_id s) = Inr resp
                  \<and> status_code resp \<noteq> 200)"
  shows "send_message_exchange b text s =
           s\<lparr>posts := posts s @ [PostChat text (session_id s)],
             errors := errors s @
               [case post_chat b (posts s) text (session_id s) of
                  Inl e \<Rightarrow>
                    ''Connection Error: Could not send message. Please check the backend server.''
                | Inr resp \<Rightarrow>
                    ''Error: Received status code '' @ str_int (status_code resp)
                      @ '' from the server.''],
             messages := messages s @
               [\<lparr>role = ''user'', content = text\<rparr>,
                \<lparr>role = ''assistant'',
                 content =
                   (case post_chat b (posts s) text (session_id s) of
                      Inl e \<Rightarrow> ''I can'' @ [CHR 0x27]
                        @ ''t connect to my brain right now. Please check the server.''
                    | Inr resp \<Rightarrow> ''Sorry, I encountered an error. Please try again.'')\<rparr>]\<rparr>"
  using assms
proof (elim disjE exE conjE)
  fix m assume h: "post_chat b (posts s) text (session_id s) = Inl (ConnectionError m)"
  show ?thesis
    by (simp add: exchange_unreachable [OF h] h)
next
  fix resp assume h: "post_chat b (posts s) text (session_id s) = Inr resp"
    and c: "status_code resp \<noteq> 200"
  show ?thesis
    by (simp add: exchange_rejected [OF h c] h)
qed

lemma send_message_outcome_active:
  "\<not> no_session s \<Longrightarrow> send_message_outcome b text s = send_message_exchange_outcome b text s"
  by (simp add: send_message_outcome_def)

lemma send_message_outcome_stops:
  assumes "no_session s" and "no_session (create_session b s)"
  shows "send_message_outcome b text s = create_session_outcome b s"
  using assms
  by (cases "create_session_outcome b s")
    (auto simp: send_message_outcome_def create_session_def split: option.splits)

lemma created_session_returns:
  assumes "no_session s" and "\<not> no_session (create_session b s)"
  shows "snd (create_session_outcome b s) = None"
proof (cases "snd (create_session_outcome b s)")
  case None
  then show ?thesis .
next
  case (Some e)
  then have "session_id (create_session b s) = session_id s"
    by (simp add: create_session_escapes)
  with assms show ?thesis
    by (simp add: no_session_def)
qed

lemma send_message_outcome_fresh:
  assumes "no_session s" and "\<not> no_session (create_session b s)"
  shows "send_message_outcome b text s = send_message_exchange_outcome b text (create_session b s)"
  using assms created_session_returns [OF assms]
  by (cases "create_session_outcome b s")
    (auto simp: send_message_outcome_def create_session_def)

lemma created_session_is_fresh:
  assumes "no_session s" and "\<not> no_session (create_session b s)"
  shows "errors (create_session b s) = errors s \<and> messages (create_session b s) = []
       \<and> suggestions (create_session b s) = []"
  using create_session_cases [of b s] assms
  by (auto simp: no_session_def)

subsection \<open>The invariant\<close>

lemma invariant_initial: "session_invariant initial"
  by (simp add: session_invariant_def initial_def)

lemma invariant_create_session:
  "session_invariant s \<Longrightarrow> session_invariant (create_session b s)"
  using create_session_cases [of b s]
  by (auto simp: session_invariant_def no_session_def)

lemma invariant_send_message:
  assumes "session_invariant s"
  shows "session_invariant (send_message b text s)"
proof (cases "no_session s")
  case False
  then have "\<not> no_session (send_message b text s)"
    by (simp add: send_message_active no_session_frame [OF exchange_session_id])
  then show ?thesis by (simp add: session_invariant_def)
next
  case True
  show ?thesis
  proof (cases "no_session (create_session b s)")
    case True
    with \<open>no_session s\<close> have "send_message b text s = create_session b s"
      by (simp add: send_message_eq)
    with assms show ?thesis by (simp add: invariant_create_session)
  next
    case False
    with \<open>no_session s\<close>
    have "send_message b text s = send_message_exchange b text (create_session b s)"
      by (simp add: send_message_eq)
    with False have "\<not> no_session (send_message b text s)"
      by (simp add: no_session_frame [OF exchange_session_id])
    then show ?thesis by (simp add: session_invariant_def)
  qed
qed

lemma invariant_step: "session_invariant s \<Longrightarrow> session_invariant (step b s a)"
  by (cases a) (simp_all add: invariant_create_session invariant_send_message)

lemma invariant_run: "session_invariant (run b acts)"
  unfolding run_def
  by (induction acts rule: rev_induct) (simp_all add: invariant_initial invariant_step)

text \<open>
  C1. In every state that any sequence of calls reaches from the initial state, against any
  backend, a missing session identifier (\<^verbatim>\<open>None\<close>, or the empty string that the code's own test
  treats alike) comes with an empty message log and an empty suggestion list.
\<close>

theorem absent_session_has_empty_log:
  assumes "session_id (run b acts) = None \<or> session_id (run b acts) = Some []"
  shows "messages (run b acts) = [] \<and> suggestions (run b acts) = []"
  using assms invariant_run [of b acts]
  by (simp add: session_invariant_def no_session_iff)

theorem absent_session_has_empty_log_witness:
  "session_id (run unreachable_backend [SendMessage ''I have sharp pain'', CreateSession]) = None
   \<and> messages (run unreachable_backend [SendMessage ''I have sharp pain'', CreateSession]) = []
   \<and> suggestions (run unreachable_backend [SendMessage ''I have sharp pain'', CreateSession]) = []"
proof -
  have h: "session_id (run unreachable_backend [SendMessage ''I have sharp pain'', CreateSession])
             = None"
    by (simp add: run_def initial_def send_message_eq create_session_eq create_session_try_def
        unreachable_backend_def st_error_def no_session_def)
  from absent_session_has_empty_log [OF disjI1 [OF h]] h show ?thesis by simp
qed

subsection \<open>Sending without a session\<close>

text \<open>
  C2. When \<^verbatim>\<open>send_message\<close> is called without a session and the session request fails, by a
  connection error or by a status other than 200, it returns with the message log, the
  suggestions and the session identifier as they were: the user's text is not appended. The only
  request posted is the one for the session, so no exchange is attempted, and the one error shown
  is that of \<^verbatim>\<open>create_session\<close>.
\<close>

theorem send_message_stops_when_session_creation_fails:
  assumes "session_id s = None \<or> session_id s = Some []"
    and "(\<exists>m. post_session b (posts s) = Inl (ConnectionError m))
         \<or> (\<exists>resp. post_session b (posts s) = Inr resp \<and> status_code resp \<noteq> 200)"
  shows "messages (send_message b text s) = messages s
       \<and> suggestions (send_message b text s) = suggestions s
       \<and> session_id (send_message b text s) = session_id s
       \<and> posts (send_message b text s) = posts s @ [PostSession]
       \<and> errors (send_message b text s) = errors s @
            [case post_session b (posts s) of
               Inl e \<Rightarrow> ''Connection Error: Could not connect to the API server.''
             | Inr resp \<Rightarrow>
                 ''Failed to create a new session. Please ensure the backend is running.'']"
proof -
  from assms(1) have "no_session s"
    by (simp add: no_session_iff)
  then have "send_message b text s = create_session b s"
    using assms(2) by (rule send_message_without_session_fails)
  with create_session_fails [OF assms(2)] show ?thesis
    by simp
qed

theorem send_message_stops_when_session_creation_fails_witness:
  "session_id initial = None
   \<and> post_session unreachable_backend (posts initial) = Inl (ConnectionError ''Connection refused'')
   \<and> messages (send_message unreachable_backend ''I have sharp pain'' initial) = []
   \<and> session_id (send_message unreachable_backend ''I have sharp pain'' initial) = None
   \<and> posts (send_message unreachable_backend ''I have sharp pain'' initial) = [PostSession]
   \<and> errors (send_message unreachable_backend ''I have sharp pain'' initial) =
        [''Connection Error: Could not connect to the API server.'']"
proof -
  have a: "session_id initial = None \<or> session_id initial = Some []"
    by (simp add: initial_def)
  have p: "post_session unreachable_backend (posts initial)
             = Inl (ConnectionError ''Connection refused'')"
    by (simp add: unreachable_backend_def)
  then have c: "(\<exists>m. post_session unreachable_backend (posts initial) = Inl (ConnectionError m))
      \<or> (\<exists>resp. post_session unreachable_backend (posts initial) = Inr resp
            \<and> status_code resp \<noteq> 200)"
    by simp
  have i: "messages initial = []" "session_id initial = None" "posts initial = []"
    "errors initial = []"
    by (simp_all add: initial_def)
  from send_message_stops_when_session_creation_fails [OF a c, of "''I have sharp pain''"] p
  show ?thesis
    by (simp add: i)
qed

subsection \<open>Where a transport error ends up\<close>

text \<open>
  C3, as the claim states it, fails: an error on the session request is shown with
  \<^verbatim>\<open>st.error\<close> but writes nothing into the conversation. Starting a new conversation while the
  server cannot be reached leaves the log as it was, and so does a first message.
\<close>

theorem session_error_appends_no_message:
  "post_session unreachable_backend (posts talking) = Inl (ConnectionError ''Connection refused'')
   \<and> messages (create_session unreachable_backend talking) = messages talking
   \<and> errors (create_session unreachable_backend talking) =
        [''Connection Error: Could not connect to the API server.'']
   \<and> messages (send_message unreachable_backend ''I have sharp pain'' initial) = []"
  by (simp add: create_session_eq create_session_try_def send_message_eq st_error_def
      no_session_def unreachable_backend_def talking_def initial_def)

text \<open>
  C3, amended. A transport error never leaves either method as an exception: the call returns.
  Each transport error adds exactly one \<^verbatim>\<open>st.error\<close> notice, the one for its kind. An error on
  the session request, in \<^verbatim>\<open>create_session\<close> or in the \<^verbatim>\<open>send_message\<close> that called it,
  leaves the message log as it was. An error on the exchange appends, after the user's text, the
  assistant message for its kind; this holds of every \<^verbatim>\<open>send_message\<close> that reaches the
  exchange, with the session it found or with the one it has just created, in which case the log
  starts empty.
\<close>

theorem transport_errors_are_reported:
  "(((\<exists>m. post_session b (posts s) = Inl (ConnectionError m))
      \<or> (\<exists>resp. post_session b (posts s) = Inr resp \<and> status_code resp \<noteq> 200))
     \<longrightarrow> snd (create_session_outcome b s) = None
         \<and> errors (create_session b s) = errors s @
              [case post_session b (posts s) of
                 Inl e \<Rightarrow> ''Connection Error: Could not connect to the API server.''
               | Inr resp \<Rightarrow>
                   ''Failed to create a new session. Please ensure the backend is running.'']
         \<and> messages (create_session b s) = messages s
         \<and> (no_session s \<longrightarrow>
               snd (send_message_outcome b text s) = None
               \<and> errors (send_message b text s) = errors s @
                    [case post_session b (posts s) of
                       Inl e \<Rightarrow> ''Connection Error: Could not connect to the API server.''
                     | Inr resp \<Rightarrow>
                         ''Failed to create a new session. Please ensure the backend is running.'']
               \<and> messages (send_message b text s) = messages s))
   \<and> (\<forall>s0. s0 = (if no_session s then create_session b s else s)
         \<and> \<not> no_session s0
         \<and> ((\<exists>m. post_chat b (posts s0) text (session_id s0) = Inl (ConnectionError m))
              \<or> (\<exists>resp. post_chat b (posts s0) text (session_id s0) = Inr resp
                    \<and> status_code resp \<noteq> 200))
     \<longrightarrow> snd (send_message_outcome b text s) = None
         \<and> errors (send_message b text s) = errors s @
              [case post_chat b (posts s0) text (session_id s0) of
                 Inl e \<Rightarrow>
                   ''Connection Error: Could not send message. Please check the backend server.''
               | Inr resp \<Rightarrow>
                   ''Error: Received status code '' @ str_int (status_code resp)
                     @ '' from the server.'']
         \<and> messages (send_message b text s) =
              (if no_session s then [] else messages s) @
                [\<lparr>role = ''user'', content = text\<rparr>,
                 \<lparr>role = ''assistant'',
                  content =
                    (case post_chat b (posts s0) text (session_id s0) of
                       Inl e \<Rightarrow> ''I can'' @ [CHR 0x27]
                         @ ''t connect to my brain right now. Please check the server.''
                     | Inr resp \<Rightarrow> ''Sorry, I encountered an error. Please try again.'')\<rparr>])"
proof (intro conjI impI allI)
  assume failed: "(\<exists>m. post_session b (posts s) = Inl (ConnectionError m))
      \<or> (\<exists>resp. post_session b (posts s) = Inr resp \<and> status_code resp \<noteq> 200)"
  note created = create_session_fails [OF failed]
  show returns: "snd (create_session_outcome b s) = None"
    using failed by (rule create_session_fails_returns)
  show "errors (create_session b s) = errors s @
          [case post_session b (posts s) of
             Inl e \<Rightarrow> ''Connection Error: Could not connect to the API server.''
           | Inr resp \<Rightarrow>
               ''Failed to create a new session. Please ensure the backend is running.'']"
    by (subst created) simp
  show "messages (create_session b s) = messages s"
    by (subst created) simp
  assume none: "no_session s"
  note same = send_message_without_session_fails [OF none failed]
  have "session_id (create_session b s) = session_id s"
    by (subst created) simp
  with none have "no_session (create_session b s)"
    by (simp add: no_session_def)
  with none have "send_message_outcome b text s = create_session_outcome b s"
    by (rule send_message_outcome_stops)
  with returns show "snd (send_message_outcome b text s) = None"
    by simp
  show "errors (send_message b text s) = errors s @
          [case post_session b (posts s) of
             Inl e \<Rightarrow> ''Connection Error: Could not connect to the API server.''
           | Inr resp \<Rightarrow>
               ''Failed to create a new session. Please ensure the backend is running.'']"
    unfolding same by (subst created) simp
  show "messages (send_message b text s) = messages s"
    unfolding same by (subst created) simp
next
  fix s0
  assume "s0 = (if no_session s then create_session b s else s)
         \<and> \<not> no_session s0
         \<and> ((\<exists>m. post_chat b (posts s0) text (session_id s0) = Inl (ConnectionError m))
              \<or> (\<exists>resp. post_chat b (posts s0) text (session_id s0) = Inr resp
                    \<and> status_code resp \<noteq> 200))"
  then have start: "s0 = (if no_session s then create_session b s else s)"
    and active: "\<not> no_session s0"
    and failed: "(\<exists>m. post_chat b (posts s0) text (session_id s0) = Inl (ConnectionError m))
              \<or> (\<exists>resp. post_chat b (posts s0) text (session_id s0) = Inr resp
                    \<and> status_code resp \<noteq> 200)"
    by blast+
  have outcome: "send_message_outcome b text s = send_message_exchange_outcome b text s0"
    using start active
    by (cases "no_session s") (simp_all add: send_message_outcome_active send_message_outcome_fresh)
  then have state: "send_message b text s = send_message_exchange b text s0"
    by (simp add: send_message_def send_message_exchange_def)
  have before: "errors s0 = errors s" "messages s0 = (if no_session s then [] else messages s)"
    using start active created_session_is_fresh [of s b]
    by (cases "no_session s", simp_all)+
  note result = exchange_fails_exactly [OF failed]
  show "snd (send_message_outcome b text s) = None"
    unfolding outcome using failed by (rule exchange_fails_returns)
  show "errors (send_message b text s) = errors s @
          [case post_chat b (posts s0) text (session_id s0) of
             Inl e \<Rightarrow>
               ''Connection Error: Could not send message. Please check the backend server.''
           | Inr resp \<Rightarrow>
               ''Error: Received status code '' @ str_int (status_code resp)
                 @ '' from the server.'']"
    unfolding state by (subst result) (simp add: before)
  show "messages (send_message b text s) =
          (if no_session s then [] else messages s) @
            [\<lparr>role = ''user'', content = text\<rparr>,
             \<lparr>role = ''assistant'',
              content =
                (case post_chat b (posts s0) text (session_id s0) of
                   Inl e \<Rightarrow> ''I can'' @ [CHR 0x27]
                     @ ''t connect to my brain right now. Please check the server.''
                 | Inr resp \<Rightarrow> ''Sorry, I encountered an error. Please try again.'')\<rparr>]"
    unfolding state by (subst result) (simp add: before)
qed

theorem transport_errors_are_reported_witness:
  "post_session refusing_backend (posts initial)
     = Inr \<lparr>status_code = 503, json = Undecodable ''Expecting value''\<rparr>
   \<and> no_session initial
   \<and> snd (create_session_outcome refusing_backend initial) = None
   \<and> errors (create_session refusing_backend initial) =
       [''Failed to create a new session. Please ensure the backend is running.'']
   \<and> messages (create_session refusing_backend initial) = []
   \<and> snd (send_message_outcome refusing_backend ''Nausea'' initial) = None
   \<and> errors (send_message refusing_backend ''Nausea'' initial) =
       [''Failed to create a new session. Please ensure the backend is running.'']
   \<and> messages (send_message refusing_backend ''Nausea'' initial) = []
   \<and> \<not> no_session talking
   \<and> post_chat dropping_chat_backend (posts talking) ''Nausea'' (session_id talking)
       = Inl (ConnectionError ''Connection reset'')
   \<and> snd (send_message_outcome dropping_chat_backend ''Nausea'' talking) = None
   \<and> errors (send_message dropping_chat_backend ''Nausea'' talking) =
       [''Connection Error: Could not send message. Please check the backend server.'']
   \<and> messages (send_message dropping_chat_backend ''Nausea'' talking) =
       messages talking @
         [\<lparr>role = ''user'', content = ''Nausea''\<rparr>,
          \<lparr>role = ''assistant'',
           content = ''I can'' @ [CHR 0x27]
             @ ''t connect to my brain right now. Please check the server.''\<rparr>]
   \<and> \<not> no_session (create_session failing_chat_backend initial)
   \<and> post_chat failing_chat_backend (posts (create_session failing_chat_backend initial))
         ''Nausea'' (session_id (create_session failing_chat_backend initial))
       = Inr \<lparr>status_code = 500, json = Undecodable ''Expecting value''\<rparr>
   \<and> snd (send_message_outcome failing_chat_backend ''Nausea'' initial) = None
   \<and> errors (send_message failing_chat_backend ''Nausea'' initial) =
       [''Error: Received status code 500 from the server.'']
   \<and> messages (send_message failing_chat_backend ''Nausea'' initial) =
       [\<lparr>role = ''user'', content = ''Nausea''\<rparr>,
        \<lparr>role = ''assistant'', content = ''Sorry, I encountered an error. Please try again.''\<rparr>]"
proof -
  have p: "post_session refusing_backend (posts initial)
     = Inr \<lparr>status_code = 503, json = Undecodable ''Expecting value''\<rparr>"
    by (simp add: refusing_backend_def)
  then have f: "(\<exists>m. post_session refusing_backend (posts initial) = Inl (ConnectionError m))
      \<or> (\<exists>resp. post_session refusing_backend (posts initial) = Inr resp
            \<and> status_code resp \<noteq> 200)"
    by simp
  have n: "no_session initial"
    by (simp add: no_session_def initial_def)
  have i: "errors initial = []" "messages initial = []"
    by (simp_all add: initial_def)
  have a: "\<not> no_session talking"
    by (simp add: no_session_def talking_def)
  have t: "errors talking = []"
    by (simp add: talking_def)
  have q: "post_chat dropping_chat_backend (posts talking) ''Nausea'' (session_id talking)
       = Inl (ConnectionError ''Connection reset'')"
    by (simp add: dropping_chat_backend_def)
  have c: "\<not> no_session (create_session failing_chat_backend initial)"
    by (simp add: create_session_eq create_session_try_def failing_chat_backend_def session_ok_def
        no_session_def)
  have r: "post_chat failing_chat_backend (posts (create_session failing_chat_backend initial))
         ''Nausea'' (session_id (create_session failing_chat_backend initial))
       = Inr \<lparr>status_code = 500, json = Undecodable ''Expecting value''\<rparr>"
    by (simp add: failing_chat_backend_def)
  have d: "str_int 500 = ''500''"
    by code_simp
  from transport_errors_are_reported [of refusing_backend initial "''Nausea''"] f n
  have first: "snd (create_session_outcome refusing_backend initial) = None
   \<and> errors (create_session refusing_backend initial) =
       [''Failed to create a new session. Please ensure the backend is running.'']
   \<and> messages (create_session refusing_backend initial) = []
   \<and> snd (send_message_outcome refusing_backend ''Nausea'' initial) = None
   \<and> errors (send_message refusing_backend ''Nausea'' initial) =
       [''Failed to create a new session. Please ensure the backend is running.'']
   \<and> messages (send_message refusing_backend ''Nausea'' initial) = []"
    by (simp add: p i)
  from transport_errors_are_reported [of dropping_chat_backend talking "''Nausea''"]
  have "talking = (if no_session talking then create_session dropping_chat_backend talking
                   else talking)
         \<and> \<not> no_session talking
         \<and> ((\<exists>m. post_chat dropping_chat_backend (posts talking) ''Nausea'' (session_id talking)
                 = Inl (ConnectionError m))
              \<or> (\<exists>resp. post_chat dropping_chat_backend (posts talking) ''Nausea''
                    (session_id talking) = Inr resp \<and> status_code resp \<noteq> 200))
     \<longrightarrow> snd (send_message_outcome dropping_chat_backend ''Nausea'' talking) = None
         \<and> errors (send_message dropping_chat_backend ''Nausea'' talking) = errors talking @
              [case post_chat dropping_chat_backend (posts talking) ''Nausea'' (session_id talking) of
                 Inl e \<Rightarrow>
                   ''Connection Error: Could not send message. Please check the backend server.''
               | Inr resp \<Rightarrow>
                   ''Error: Received status code '' @ str_int (status_code resp)
                     @ '' from the server.'']
         \<and> messages (send_message dropping_chat_backend ''Nausea'' talking) =
              (if no_session talking then [] else messages talking) @
                [\<lparr>role = ''user'', content = ''Nausea''\<rparr>,
                 \<lparr>role = ''assistant'',
                  content =
                    (case post_chat dropping_chat_backend (posts talking) ''Nausea''
                            (session_id talking) of
                       Inl e \<Rightarrow> ''I can'' @ [CHR 0x27]
                         @ ''t connect to my brain right now. Please check the server.''
                     | Inr resp \<Rightarrow> ''Sorry, I encountered an error. Please try again.'')\<rparr>]"
    by blast
  with a q
  have second: "snd (send_message_outcome dropping_chat_backend ''Nausea'' talking) = None
   \<and> errors (send_message dropping_chat_backend ''Nausea'' talking) =
       [''Connection Error: Could not send message. Please check the backend server.'']
   \<and> messages (send_message dropping_chat_backend ''Nausea'' talking) =
       messages talking @
         [\<lparr>role = ''user'', content = ''Nausea''\<rparr>,
          \<lparr>role = ''assistant'',
           content = ''I can'' @ [CHR 0x27]
             @ ''t connect to my brain right now. Please check the server.''\<rparr>]"
    by (simp add: t)
  let ?s0 = "create_session failing_chat_backend initial"
  from transport_errors_are_reported [of failing_chat_backend initial "''Nausea''"]
  have "?s0 = (if no_session initial then create_session failing_chat_backend initial
               else initial)
         \<and> \<not> no_session ?s0
         \<and> ((\<exists>m. post_chat failing_chat_backend (posts ?s0) ''Nausea'' (session_id ?s0)
                 = Inl (ConnectionError m))
              \<or> (\<exists>resp. post_chat failing_chat_backend (posts ?s0) ''Nausea''
                    (session_id ?s0) = Inr resp \<and> status_code resp \<noteq> 200))
     \<longrightarrow> snd (send_message_outcome failing_chat_backend ''Nausea'' initial) = None
         \<and> errors (send_message failing_chat_backend ''Nausea'' initial) = errors initial @
              [case post_chat failing_chat_backend (posts ?s0) ''Nausea'' (session_id ?s0) of
                 Inl e \<Rightarrow>
                   ''Connection Error: Could not send message. Please check the backend server.''
               | Inr resp \<Rightarrow>
                   ''Error: Received status code '' @ str_int (status_code resp)
                     @ '' from the server.'']
         \<and> messages (send_message failing_chat_backend ''Nausea'' initial) =
              (if no_session initial then [] else messages initial) @
                [\<lparr>role = ''user'', content = ''Nausea''\<rparr>,
                 \<lparr>role = ''assistant'',
                  content =
                    (case post_chat failing_chat_backend (posts ?s0) ''Nausea''
                            (session_id ?s0) of
                       Inl e \<Rightarrow> ''I can'' @ [CHR 0x27]
                         @ ''t connect to my brain right now. Please check the server.''
                     | Inr resp \<Rightarrow> ''Sorry, I encountered an error. Please try again.'')\<rparr>]"
    by blast
  with n c r
  have third: "snd (send_message_outcome failing_chat_backend ''Nausea'' initial) = None
   \<and> errors (send_message failing_chat_backend ''Nausea'' initial) =
       [''Error: Received status code 500 from the server.'']
   \<and> messages (send_message failing_chat_backend ''Nausea'' initial) =
       [\<lparr>role = ''user'', content = ''Nausea''\<rparr>,
        \<lparr>role = ''assistant'', content = ''Sorry, I encountered an error. Please try again.''\<rparr>]"
    by (simp add: i d)
  from p n a q c r first second third show ?thesis
    by blast
qed

text \<open>
  What is raised outside \<^verbatim>\<open>Exception\<close> does leave both methods: the statement above is about
  transport errors, not about every way a call can end.
\<close>

lemma interrupt_leaves_both_methods:
  "snd (create_session_outcome interrupted_backend initial)
     = Some (NotAnException ''KeyboardInterrupt'')
   \<and> snd (send_message_outcome interrupted_backend ''Nausea'' initial)
     = Some (NotAnException ''KeyboardInterrupt'')
   \<and> snd (send_message_outcome interrupted_backend ''Nausea'' talking)
     = Some (NotAnException ''KeyboardInterrupt'')"
  by (simp add: send_message_outcome_def send_message_exchange_outcome_def send_message_try_def
      create_session_outcome_def create_session_try_def interrupted_backend_def no_session_def
      initial_def talking_def append_message_def)

subsection \<open>Sending with a session\<close>

text \<open>
  C4. With a session, the user's text is appended first. When the exchange then answers a status
  other than 200, the apology is appended and the status is reported; when the post raises a
  connection error, the message about not being able to connect is appended and the connection
  error is reported. The two assistant messages differ, and in both cases the suggestions stay as
  they were.
\<close>

theorem failed_exchange_is_explained:
  assumes "\<not> no_session s"
  shows "(\<forall>resp. post_chat b (posts s) text (session_id s) = Inr resp \<and> status_code resp \<noteq> 200
            \<longrightarrow> messages (send_message b text s) =
                  messages s @
                    [\<lparr>role = ''user'', content = text\<rparr>,
                     \<lparr>role = ''assistant'',
                      content = ''Sorry, I encountered an error. Please try again.''\<rparr>]
                \<and> suggestions (send_message b text s) = suggestions s
                \<and> errors (send_message b text s) =
                    errors s @ [''Error: Received status code '' @ str_int (status_code resp)
                                  @ '' from the server.''])
       \<and> (\<forall>m. post_chat b (posts s) text (session_id s) = Inl (ConnectionError m)
            \<longrightarrow> messages (send_message b text s) =
                  messages s @
                    [\<lparr>role = ''user'', content = text\<rparr>,
                     \<lparr>role = ''assistant'',
                      content = ''I can'' @ [CHR 0x27]
                        @ ''t connect to my brain right now. Please check the server.''\<rparr>]
                \<and> suggestions (send_message b text s) = suggestions s
                \<and> errors (send_message b text s) =
                    errors s @ [''Connection Error: Could not send message. Please check the backend server.''])
       \<and> ''Sorry, I encountered an error. Please try again.''
           \<noteq> ''I can'' @ [CHR 0x27] @ ''t connect to my brain right now. Please check the server.''"
proof (intro conjI allI impI)
  fix resp
  assume "post_chat b (posts s) text (session_id s) = Inr resp \<and> status_code resp \<noteq> 200"
  then have h: "post_chat b (posts s) text (session_id s) = Inr resp"
    and c: "status_code resp \<noteq> 200"
    by simp_all
  note result = exchange_rejected [OF h c]
  show "messages (send_message b text s) =
          messages s @
            [\<lparr>role = ''user'', content = text\<rparr>,
             \<lparr>role = ''assistant'',
              content = ''Sorry, I encountered an error. Please try again.''\<rparr>]"
    unfolding send_message_active [OF assms] result by simp
  show "suggestions (send_message b text s) = suggestions s"
    unfolding send_message_active [OF assms] result by simp
  show "errors (send_message b text s) =
          errors s @ [''Error: Received status code '' @ str_int (status_code resp)
                        @ '' from the server.'']"
    unfolding send_message_active [OF assms] result by simp
next
  fix m
  assume h: "post_chat b (posts s) text (session_id s) = Inl (ConnectionError m)"
  note result = exchange_unreachable [OF h]
  show "messages (send_message b text s) =
          messages s @
            [\<lparr>role = ''user'', content = text\<rparr>,
             \<lparr>role = ''assistant'',
              content = ''I can'' @ [CHR 0x27]
                @ ''t connect to my brain right now. Please check the server.''\<rparr>]"
    unfolding send_message_active [OF assms] result by simp
  show "suggestions (send_message b text s) = suggestions s"
    unfolding send_message_active [OF assms] result by simp
  show "errors (send_message b text s) =
          errors s @ [''Connection Error: Could not send message. Please check the backend server.'']"
    unfolding send_message_active [OF assms] result by simp
next
  show "''Sorry, I encountered an error. Please try again.''
           \<noteq> ''I can'' @ [CHR 0x27] @ ''t connect to my brain right now. Please check the server.''"
    by simp
qed

theorem failed_exchange_is_explained_witness:
  "\<not> no_session talking
   \<and> post_chat failing_chat_backend (posts talking) ''Nausea'' (session_id talking)
       = Inr \<lparr>status_code = 500, json = Undecodable ''Expecting value''\<rparr>
   \<and> messages (send_message failing_chat_backend ''Nausea'' talking) =
       messages talking @
         [\<lparr>role = ''user'', content = ''Nausea''\<rparr>,
          \<lparr>role = ''assistant'', content = ''Sorry, I encountered an error. Please try again.''\<rparr>]
   \<and> suggestions (send_message failing_chat_backend ''Nausea'' talking) = [''Any fever?'']
   \<and> errors (send_message failing_chat_backend ''Nausea'' talking) =
       [''Error: Received status code 500 from the server.'']
   \<and> post_chat dropping_chat_backend (posts talking) ''Nausea'' (session_id talking)
       = Inl (ConnectionError ''Connection reset'')
   \<and> messages (send_message dropping_chat_backend ''Nausea'' talking) =
       messages talking @
         [\<lparr>role = ''user'', content = ''Nausea''\<rparr>,
          \<lparr>role = ''assistant'',
           content = ''I can'' @ [CHR 0x27]
             @ ''t connect to my brain right now. Please check the server.''\<rparr>]
   \<and> suggestions (send_message dropping_chat_backend ''Nausea'' talking) = [''Any fever?'']
   \<and> errors (send_message dropping_chat_backend ''Nausea'' talking) =
       [''Connection Error: Could not send message. Please check the backend server.'']"
proof -
  have a: "\<not> no_session talking"
    by (simp add: no_session_def talking_def)
  have p: "post_chat failing_chat_backend (posts talking) ''Nausea'' (session_id talking)
       = Inr \<lparr>status_code = 500, json = Undecodable ''Expecting value''\<rparr>"
    by (simp add: failing_chat_backend_def)
  have q: "post_chat dropping_chat_backend (posts talking) ''Nausea'' (session_id talking)
       = Inl (ConnectionError ''Connection reset'')"
    by (simp add: dropping_chat_backend_def)
  have n: "str_int 500 = ''500''"
    by code_simp
  have t: "suggestions talking = [''Any fever?'']" "errors talking = []"
    by (simp_all add: talking_def)
  from failed_exchange_is_explained [OF a, of failing_chat_backend "''Nausea''"] p
  have first: "messages (send_message failing_chat_backend ''Nausea'' talking) =
       messages talking @
         [\<lparr>role = ''user'', content = ''Nausea''\<rparr>,
          \<lparr>role = ''assistant'', content = ''Sorry, I encountered an error. Please try again.''\<rparr>]
   \<and> suggestions (send_message failing_chat_backend ''Nausea'' talking) = [''Any fever?'']
   \<and> errors (send_message failing_chat_backend ''Nausea'' talking) =
       [''Error: Received status code 500 from the server.'']"
    by (simp add: n t)
  from failed_exchange_is_explained [OF a, of dropping_chat_backend "''Nausea''"] q
  have second: "messages (send_message dropping_chat_backend ''Nausea'' talking) =
       messages talking @
         [\<lparr>role = ''user'', content = ''Nausea''\<rparr>,
          \<lparr>role = ''assistant'',
           content = ''I can'' @ [CHR 0x27]
             @ ''t connect to my brain right now. Please check the server.''\<rparr>]
   \<and> suggestions (send_message dropping_chat_backend ''Nausea'' talking) = [''Any fever?'']
   \<and> errors (send_message dropping_chat_backend ''Nausea'' talking) =
       [''Connection Error: Could not send message. Please check the backend server.'']"
    by (simp add: t)
  from a p q first second show ?thesis
    by blast
qed

text \<open>
  C5. With a session, when the exchange answers status 200 with a reply and suggestions, the log
  grows by exactly two entries, the user's text and then the reply, and the suggestions are
  replaced by the ones returned. Nothing is reported and the session identifier stays.
\<close>

theorem successful_exchange_appends_two:
  assumes "\<not> no_session s"
    and "post_chat b (posts s) text (session_id s) = Inr resp"
    and "status_code resp = 200"
    and "json resp = Decoded \<lparr>response_field = Some r, suggestions_field = Some sg\<rparr>"
  shows "messages (send_message b text s) =
           messages s @ [\<lparr>role = ''user'', content = text\<rparr>, \<lparr>role = ''assistant'', content = r\<rparr>]
       \<and> suggestions (send_message b text s) = sg
       \<and> errors (send_message b text s) = errors s
       \<and> session_id (send_message b text s) = session_id s"
proof -
  have "send_message_exchange b text s =
           s\<lparr>posts := posts s @ [PostChat text (session_id s)],
             messages := messages s @
               [\<lparr>role = ''user'', content = text\<rparr>, \<lparr>role = ''assistant'', content = r\<rparr>],
             suggestions := sg\<rparr>"
    using assms(2-4) by (rule exchange_succeeds_result) simp_all
  then show ?thesis
    unfolding send_message_active [OF assms(1)] by simp
qed

theorem successful_exchange_appends_two_witness:
  "\<not> no_session talking
   \<and> post_chat healthy_backend (posts talking) ''Nausea'' (session_id talking)
       = chat_ok ''Tell me more'' [''Since when?'', ''Any fever?'']
   \<and> messages (send_message healthy_backend ''Nausea'' talking) =
       [\<lparr>role = ''user'', content = ''Bloating and gas''\<rparr>,
        \<lparr>role = ''assistant'', content = ''Since when?''\<rparr>,
        \<lparr>role = ''user'', content = ''Nausea''\<rparr>,
        \<lparr>role = ''assistant'', content = ''Tell me more''\<rparr>]
   \<and> suggestions (send_message healthy_backend ''Nausea'' talking) = [''Since when?'', ''Any fever?'']"
proof -
  have a: "\<not> no_session talking"
    by (simp add: no_session_def talking_def)
  have p: "post_chat healthy_backend (posts talking) ''Nausea'' (session_id talking)
       = chat_ok ''Tell me more'' [''Since when?'', ''Any fever?'']"
    by (simp add: healthy_backend_def)
  have m: "messages talking =
       [\<lparr>role = ''user'', content = ''Bloating and gas''\<rparr>,
        \<lparr>role = ''assistant'', content = ''Since when?''\<rparr>]"
    by (simp add: talking_def)
  from successful_exchange_appends_two [OF a p [unfolded chat_ok_def]] p
  show ?thesis
    by (simp add: a m)
qed

text \<open>
  The first scenario of the specification: no session yet, the session request and the exchange
  both succeed.
\<close>

lemma first_message_opens_session:
  "messages (run healthy_backend [SendMessage ''I have sharp pain'']) =
     [\<lparr>role = ''user'', content = ''I have sharp pain''\<rparr>,
      \<lparr>role = ''assistant'', content = ''Tell me more''\<rparr>]
   \<and> suggestions (run healthy_backend [SendMessage ''I have sharp pain'']) =
     [''Since when?'', ''Any fever?'']"
  by (simp add: run_def initial_def send_message_eq create_session_eq create_session_try_def
      send_message_exchange_eq send_message_try_def append_message_def no_session_def
      healthy_backend_def session_ok_def chat_ok_def)

subsection \<open>A run of successful exchanges\<close>

text \<open>
  C6. Starting with a session and an empty log, after a number of calls of \<^verbatim>\<open>send_message\<close>
  whose exchanges all succeed, the log has two entries for each call, the roles alternate user,
  assistant, user, assistant, and the entries stand in the order of the calls: the log is the
  dialogue of the texts sent with the replies received, oldest first. No call is the case of an
  empty list of texts.
\<close>

theorem successful_sends_alternate:
  assumes "\<not> no_session s" and "messages s = []" and "all_succeed b texts s"
  shows "length (messages (send_all b texts s)) = 2 * length texts
       \<and> map role (messages (send_all b texts s)) =
           concat (replicate (length texts) [''user'', ''assistant''])
       \<and> (\<exists>replies. length replies = length texts
             \<and> messages (send_all b texts s) = dialogue texts replies)"
proof -
  from send_all_messages [OF assms(1) assms(3)] assms(2) obtain replies where
    len: "length replies = length texts"
    and log: "messages (send_all b texts s) = dialogue texts replies"
    by auto
  from len log show ?thesis
    by (auto simp: length_dialogue roles_dialogue)
qed

theorem successful_sends_alternate_witness:
  "\<not> no_session (create_session healthy_backend initial)
   \<and> messages (create_session healthy_backend initial) = []
   \<and> all_succeed healthy_backend [''Nausea'', ''Since this morning'']
        (create_session healthy_backend initial)
   \<and> length (messages (send_all healthy_backend [''Nausea'', ''Since this morning'']
        (create_session healthy_backend initial))) = 4
   \<and> map role (messages (send_all healthy_backend [''Nausea'', ''Since this morning'']
        (create_session healthy_backend initial))) =
       [''user'', ''assistant'', ''user'', ''assistant'']"
proof -
  have digits_0: "digits 0 = ''0''"
    by code_simp
  have c: "create_session healthy_backend initial =
      \<lparr>session_id = Some ''s0'', messages = [], suggestions = [], errors = [],
       posts = [PostSession]\<rparr>"
    by (simp add: create_session_eq create_session_try_def healthy_backend_def session_ok_def
        initial_def digits_0)
  have a: "\<not> no_session (create_session healthy_backend initial)"
    by (simp add: c no_session_def)
  have e: "messages (create_session healthy_backend initial) = []"
    by (simp add: c)
  have ok: "\<And>text s. exchange_succeeds healthy_backend text s"
    by (simp add: exchange_succeeds_def healthy_backend_def chat_ok_def)
  have all: "all_succeed healthy_backend [''Nausea'', ''Since this morning'']
        (create_session healthy_backend initial)"
    by (simp add: ok)
  from successful_sends_alternate [OF a e all] a e all show ?thesis
    by (simp add: numeral_2_eq_2)
qed

subsection \<open>Starting a session\<close>

text \<open>
  C7. When the session request raises a connection error, \<^verbatim>\<open>create_session\<close> leaves the session
  identifier, the message log and the suggestions as they were, whatever they were, and reports
  the connection error and nothing else.
\<close>

theorem unreachable_create_session_keeps_state:
  assumes "post_session b (posts s) = Inl (ConnectionError m)"
  shows "session_id (create_session b s) = session_id s
       \<and> messages (create_session b s) = messages s
       \<and> suggestions (create_session b s) = suggestions s
       \<and> errors (create_session b s) =
           errors s @ [''Connection Error: Could not connect to the API server.'']"
  unfolding create_session_unreachable [OF assms] by simp

theorem unreachable_create_session_keeps_state_witness:
  "post_session unreachable_backend (posts talking) = Inl (ConnectionError ''Connection refused'')
   \<and> session_id (create_session unreachable_backend talking) = Some ''s0''
   \<and> messages (create_session unreachable_backend talking) = messages talking
   \<and> suggestions (create_session unreachable_backend talking) = [''Any fever?'']
   \<and> errors (create_session unreachable_backend talking) =
       [''Connection Error: Could not connect to the API server.'']"
proof -
  have p: "post_session unreachable_backend (posts talking)
             = Inl (ConnectionError ''Connection refused'')"
    by (simp add: unreachable_backend_def)
  have t: "session_id talking = Some ''s0''" "suggestions talking = [''Any fever?'']"
    "errors talking = []"
    by (simp_all add: talking_def)
  from unreachable_create_session_keeps_state [OF p] p show ?thesis
    by (simp add: t)
qed

text \<open>
  C8. Pressing the button for a new conversation twice in a row, with both session requests
  answered, gives after each press an empty log, no suggestions and the session identifier that
  the backend returned for that press; the two states differ in nothing else that the page
  shows. The state before the first press does not matter.
\<close>

theorem new_conversation_twice:
  assumes "post_session b (posts s) = Inr resp1" and "status_code resp1 = 200"
    and "json resp1 = Decoded (Some sid1)"
    and "post_session b (posts s @ [PostSession]) = Inr resp2" and "status_code resp2 = 200"
    and "json resp2 = Decoded (Some sid2)"
  shows "session_id (step b s StartNewConversation) = Some sid1
       \<and> messages (step b s StartNewConversation) = []
       \<and> suggestions (step b s StartNewConversation) = []
       \<and> session_id (step b (step b s StartNewConversation) StartNewConversation) = Some sid2
       \<and> messages (step b (step b s StartNewConversation) StartNewConversation) = []
       \<and> suggestions (step b (step b s StartNewConversation) StartNewConversation) = []
       \<and> errors (step b (step b s StartNewConversation) StartNewConversation)
           = errors (step b s StartNewConversation)"
proof -
  let ?s1 = "create_session b s"
  have one: "?s1 = s\<lparr>posts := posts s @ [PostSession], session_id := Some sid1, messages := [],
             suggestions := []\<rparr>"
    using assms(1-3) by (rule create_session_succeeds)
  then have "posts ?s1 = posts s @ [PostSession]"
    by simp
  with assms(4) have "post_session b (posts ?s1) = Inr resp2"
    by simp
  then have two: "create_session b ?s1 =
      ?s1\<lparr>posts := posts ?s1 @ [PostSession], session_id := Some sid2, messages := [],
             suggestions := []\<rparr>"
    using assms(5,6) by (rule create_session_succeeds)
  have "session_id ?s1 = Some sid1 \<and> messages ?s1 = [] \<and> suggestions ?s1 = []"
    by (subst one)+ simp
  moreover have "session_id (create_session b ?s1) = Some sid2
      \<and> messages (create_session b ?s1) = [] \<and> suggestions (create_session b ?s1) = []
      \<and> errors (create_session b ?s1) = errors ?s1"
    by (subst two)+ simp
  ultimately show ?thesis
    by simp
qed

theorem new_conversation_twice_witness:
  "post_session healthy_backend (posts talking) = session_ok ''s2''
   \<and> post_session healthy_backend (posts talking @ [PostSession]) = session_ok ''s3''
   \<and> session_id (step healthy_backend talking StartNewConversation) = Some ''s2''
   \<and> messages (step healthy_backend talking StartNewConversation) = []
   \<and> suggestions (step healthy_backend talking StartNewConversation) = []
   \<and> session_id (step healthy_backend (step healthy_backend talking StartNewConversation)
         StartNewConversation) = Some ''s3''
   \<and> messages (step healthy_backend (step healthy_backend talking StartNewConversation)
         StartNewConversation) = []
   \<and> suggestions (step healthy_backend (step healthy_backend talking StartNewConversation)
         StartNewConversation) = []"
proof -
  have d: "digits 2 = ''2''" "digits 3 = ''3''"
    by code_simp+
  have n: "length (posts talking) = 2"
    by (simp add: talking_def)
  have p: "post_session healthy_backend (posts talking) = session_ok ''s2''"
    by (simp add: healthy_backend_def n d)
  have q: "post_session healthy_backend (posts talking @ [PostSession]) = session_ok ''s3''"
    by (simp add: healthy_backend_def n d)
  from new_conversation_twice [OF p [unfolded session_ok_def] _ _ q [unfolded session_ok_def]]
  have "session_id (step healthy_backend talking StartNewConversation) = Some ''s2''
   \<and> messages (step healthy_backend talking StartNewConversation) = []
   \<and> suggestions (step healthy_backend talking StartNewConversation) = []
   \<and> session_id (step healthy_backend (step healthy_backend talking StartNewConversation)
         StartNewConversation) = Some ''s3''
   \<and> messages (step healthy_backend (step healthy_backend talking StartNewConversation)
         StartNewConversation) = []
   \<and> suggestions (step healthy_backend (step healthy_backend talking StartNewConversation)
         StartNewConversation) = []"
    by simp
  with p q show ?thesis
    by blast
qed

subsection \<open>What \<^verbatim>\<open>send_message\<close> does with any text\<close>

text \<open>
  C9. \<^verbatim>\<open>send_message\<close> never looks at the text. With a session, whatever the text is, and so also
  when it is empty or blank, the exchange is posted with that text and the log continues with the
  user's entry holding that text.
\<close>

theorem any_text_is_sent:
  assumes "\<not> no_session s"
  shows "posts (send_message b text s) = posts s @ [PostChat text (session_id s)]
       \<and> (\<exists>rest. messages (send_message b text s) =
             messages s @ \<lparr>role = ''user'', content = text\<rparr> # rest)"
  unfolding send_message_active [OF assms]
  using exchange_echo [of b "text" s] by (simp add: exchange_posts)

theorem any_text_is_sent_witness:
  "\<not> no_session talking
   \<and> posts (send_message healthy_backend [] talking) =
       posts talking @ [PostChat [] (Some ''s0'')]
   \<and> (\<exists>rest. messages (send_message healthy_backend [] talking) =
         messages talking @ \<lparr>role = ''user'', content = []\<rparr> # rest)"
proof -
  have a: "\<not> no_session talking"
    by (simp add: no_session_def talking_def)
  have t: "session_id talking = Some ''s0''"
    by (simp add: talking_def)
  from any_text_is_sent [OF a, of healthy_backend "[]"] a show ?thesis
    by (simp add: t)
qed

text \<open>
  C10. With a session, \<^verbatim>\<open>send_message\<close> leaves the session identifier as it was, whatever the
  backend does with the exchange.
\<close>

theorem send_message_keeps_session_id:
  assumes "\<not> no_session s"
  shows "session_id (send_message b text s) = session_id s"
  unfolding send_message_active [OF assms] by (rule exchange_session_id)

theorem send_message_keeps_session_id_witness:
  "\<not> no_session talking
   \<and> session_id (send_message dropping_chat_backend ''Nausea'' talking) = Some ''s0''"
proof -
  have a: "\<not> no_session talking"
    by (simp add: no_session_def talking_def)
  have t: "session_id talking = Some ''s0''"
    by (simp add: talking_def)
  from send_message_keeps_session_id [OF a, of dropping_chat_backend "''Nausea''"] a
  show ?thesis
    by (simp add: t)
qed

end
